theory Spec2Isabelle
  imports Main
begin

section \<open>Data model\<close>

text \<open>
  The service is three Express routers: \<^verbatim>\<open>authRouter.js\<close>, \<^verbatim>\<open>franchiseRouter.js\<close> and
  \<^verbatim>\<open>userRouter.js\<close>. Each handler is embedded as a function from the request and the
  database to the outcome and the new database. JavaScript's \<^verbatim>\<open>undefined\<close> and \<^verbatim>\<open>null\<close> are
  \<open>None\<close>; a thrown exception is \<open>Inl\<close>.
\<close>

type_synonym token = string

text \<open>
  Modelled from the spec: the \<^verbatim>\<open>Role\<close> enumeration of \<^verbatim>\<open>database.js\<close>, which is not among the
  sources (spec section 3: enumerated variant Diner, Franchisee, Admin).
\<close>

datatype role = Diner | Franchisee | Admin

text \<open>An element of \<^verbatim>\<open>user.roles\<close>, an object \<^verbatim>\<open>{ role: ... }\<close>.\<close>

record roleEntry =
  role :: role

text \<open>
  A user object as the handlers see it (\<^verbatim>\<open>id\<close>, \<^verbatim>\<open>name\<close>, \<^verbatim>\<open>email\<close>, \<^verbatim>\<open>roles\<close>); the fields
  carry a prefix because \<open>id\<close> and \<open>name\<close> are taken.
\<close>

record user =
  userId :: int
  userName :: string
  userEmail :: string
  roles :: "roleEntry list"

text \<open>
  The value of \<^verbatim>\<open>Number(req.params.x)\<close>: an integer, or a number that is no integer (NaN,
  an infinity, a fraction), which the strict comparison \<^verbatim>\<open>===\<close> never equates with an id.
\<close>

datatype number = Integer int | NonInteger

text \<open>\<^verbatim>\<open>req.body\<close> with the three fields the handlers destructure.\<close>

record requestBody =
  name :: "string option"
  email :: "string option"
  password :: "string option"

record request =
  authorization :: "string option"
  userIdParam :: number
  franchiseIdParam :: number
  storeIdParam :: number
  body :: requestBody

record admin =
  adminId :: int
  adminName :: string
  adminEmail :: string

record store =
  storeId :: int
  storeName :: "string option"

record franchise =
  franchiseId :: int
  franchiseName :: string
  admins :: "admin list"
  stores :: "store list"

datatype json =
    Message string
  | UserAndToken "user option" token
  | FranchiseList "franchise list"
  | StoreJson store

datatype response = Response (status: nat) (payload: json)

text \<open>
  Modelled from the spec: the class \<^verbatim>\<open>StatusCodeError\<close> of \<^verbatim>\<open>endpointHelper.js\<close>, which is
  not among the sources (spec section 7: a structured error carrying a status code and a
  message). The other exceptions a handler can end in are JavaScript's TypeError, for reading
  a property of \<^verbatim>\<open>null\<close> or \<^verbatim>\<open>undefined\<close>, and an exception of the jsonwebtoken
  library, with its message. A handler's outcome is the exception it throws or the response
  it sends; what Express then makes of the exception is outside the routers.
\<close>

datatype error = StatusCodeError string nat | TypeError | JsonWebTokenError string

type_synonym outcome = "error + response"

section \<open>Collaborators\<close>

subsection \<open>The jsonwebtoken library\<close>

text \<open>
  \<^verbatim>\<open>jwt.sign(user, config.jwtSecret)\<close> and \<^verbatim>\<open>jwt.verify(token, config.jwtSecret)\<close> belong to
  a library, so every function that calls them takes the pair as a parameter; \<open>Inl\<close> is the
  message of the exception thrown.
\<close>

record jsonwebtoken =
  sign :: "user option \<Rightarrow> string + token"
  verify :: "token \<Rightarrow> string + user"

subsection \<open>The database\<close>

text \<open>A row of the user table: the user object and the stored password.\<close>

record account =
  profile :: user
  secret :: string

record tables =
  users :: "account list"
  auth :: "token \<rightharpoonup> int"
  franchises :: "franchise list"

text \<open>The calls a handler makes on \<^verbatim>\<open>DB\<close>, in order.\<close>

datatype dbcall =
    IsLoggedIn token
  | LoginUser int token
  | LogoutUser token
  | GetUser "string option" "string option"
  | UpdateUser number "string option" "string option" "string option"
  | GetFranchise number
  | GetUserFranchises number
  | CreateStore int requestBody
  | DeleteStore number number
  | DeleteFranchise number

record db =
  tables :: tables
  calls :: "dbcall list"

definition logged :: "dbcall \<Rightarrow> db \<Rightarrow> db" where
  "logged c d = d\<lparr>calls := calls d @ [c]\<rparr>"

definition written :: "(tables \<Rightarrow> tables) \<Rightarrow> db \<Rightarrow> db" where
  "written f d = d\<lparr>tables := f (tables d)\<rparr>"

text \<open>
  Modelled from the spec: \<^verbatim>\<open>DB.isLoggedIn\<close>, \<^verbatim>\<open>DB.loginUser\<close> and \<^verbatim>\<open>DB.logoutUser\<close> of
  \<^verbatim>\<open>database.js\<close>, which is not among the sources (spec sections 2 and 6: recordSession(token,
  userId), isSessionActive(token), revokeSession(token); a Session Record is created on login and
  destroyed on logout).
\<close>

definition isLoggedIn :: "token \<Rightarrow> db \<Rightarrow> bool \<times> db" where
  "isLoggedIn t d = (auth (tables d) t \<noteq> None, logged (IsLoggedIn t) d)"

definition loginUser :: "int \<Rightarrow> token \<Rightarrow> db \<Rightarrow> db" where
  "loginUser uid t d =
     logged (LoginUser uid t) (written (\<lambda>T. T\<lparr>auth := (auth T)(t \<mapsto> uid)\<rparr>) d)"

definition logoutUser :: "token \<Rightarrow> db \<Rightarrow> db" where
  "logoutUser t d =
     logged (LogoutUser t) (written (\<lambda>T. T\<lparr>auth := (auth T)(t := None)\<rparr>) d)"

text \<open>
  Modelled from the spec: \<^verbatim>\<open>DB.getUser\<close> of \<^verbatim>\<open>database.js\<close>, which is not among the sources
  (spec section 6: findUserByCredentials(email, password) returns the user or null; the
  Credential Store owns the password comparison).
\<close>

definition getUser :: "string option \<Rightarrow> string option \<Rightarrow> db \<Rightarrow> user option \<times> db" where
  "getUser e p d =
     (map_option profile
        (find (\<lambda>a. Some (userEmail (profile a)) = e \<and> Some (secret a) = p) (users (tables d))),
      logged (GetUser e p) d)"

text \<open>
  Modelled from the spec: \<^verbatim>\<open>DB.updateUser\<close> of \<^verbatim>\<open>database.js\<close>, which is not among the
  sources (spec sections 4.4 and 6: updateUser(id, fields) persists the changed fields; a lookup
  of an absent user gives null).
\<close>

definition amend :: "string option \<Rightarrow> string option \<Rightarrow> string option \<Rightarrow> account \<Rightarrow> account" where
  "amend n e p a =
     \<lparr>profile = (profile a)
        \<lparr>userName := (case n of None \<Rightarrow> userName (profile a) | Some x \<Rightarrow> x),
         userEmail := (case e of None \<Rightarrow> userEmail (profile a) | Some x \<Rightarrow> x)\<rparr>,
      secret = (case p of None \<Rightarrow> secret a | Some x \<Rightarrow> x)\<rparr>"

definition updateUser ::
  "number \<Rightarrow> string option \<Rightarrow> string option \<Rightarrow> string option \<Rightarrow> db \<Rightarrow> user option \<times> db" where
  "updateUser uid n e p d =
     (map_option (\<lambda>a. profile (amend n e p a))
        (find (\<lambda>a. Integer (userId (profile a)) = uid) (users (tables d))),
      logged (UpdateUser uid n e p)
        (written (\<lambda>T. T\<lparr>users :=
           map (\<lambda>a. if Integer (userId (profile a)) = uid then amend n e p a else a) (users T)\<rparr>) d))"

text \<open>
  Modelled from the spec: the franchise and store operations of \<^verbatim>\<open>database.js\<close>, which is
  not among the sources (spec sections 1 and 3: an opaque collaborator exposing franchise and
  store CRUD; a franchise has a set of admins, by id; section 7: an absent franchise is a null
  lookup result).
\<close>

definition getFranchise :: "number \<Rightarrow> db \<Rightarrow> franchise option \<times> db" where
  "getFranchise fid d =
     (find (\<lambda>f. Integer (franchiseId f) = fid) (franchises (tables d)), logged (GetFranchise fid) d)"

definition getUserFranchises :: "number \<Rightarrow> db \<Rightarrow> franchise list \<times> db" where
  "getUserFranchises uid d =
     (filter (\<lambda>f. list_ex (\<lambda>a. Integer (adminId a) = uid) (admins f)) (franchises (tables d)),
      logged (GetUserFranchises uid) d)"

definition freshStoreId :: "tables \<Rightarrow> int" where
  "freshStoreId T = fold max (map storeId (concat (map stores (franchises T)))) 0 + 1"

definition createStore :: "int \<Rightarrow> requestBody \<Rightarrow> db \<Rightarrow> store \<times> db" where
  "createStore fid b d =
     (let s = \<lparr>storeId = freshStoreId (tables d), storeName = name b\<rparr>
      in (s,
          logged (CreateStore fid b)
            (written (\<lambda>T. T\<lparr>franchises :=
               map (\<lambda>f. if franchiseId f = fid then f\<lparr>stores := stores f @ [s]\<rparr> else f)
                 (franchises T)\<rparr>) d)))"

definition deleteStore :: "number \<Rightarrow> number \<Rightarrow> db \<Rightarrow> db" where
  "deleteStore fid sid d =
     logged (DeleteStore fid sid)
       (written (\<lambda>T. T\<lparr>franchises :=
          map (\<lambda>f. if Integer (franchiseId f) = fid
                    then f\<lparr>stores := filter (\<lambda>s. Integer (storeId s) \<noteq> sid) (stores f)\<rparr>
                    else f)
            (franchises T)\<rparr>) d)"

definition deleteFranchise :: "number \<Rightarrow> db \<Rightarrow> db" where
  "deleteFranchise fid d =
     logged (DeleteFranchise fid)
       (written (\<lambda>T. T\<lparr>franchises :=
          filter (\<lambda>f. Integer (franchiseId f) \<noteq> fid) (franchises T)\<rparr>) d)"

section \<open>authRouter.js\<close>

text \<open>
  \<^verbatim>\<open>String.prototype.split\<close> with a one-character separator: every occurrence cuts, so
  the result is never empty and may hold empty pieces.
\<close>

fun split_on :: "char \<Rightarrow> string \<Rightarrow> string list" where
  "split_on c [] = [[]]"
| "split_on c (x # xs) =
     (if x = c then [] # split_on c xs
      else (case split_on c xs of [] \<Rightarrow> [[x]] | p # ps \<Rightarrow> (x # p) # ps))"

text \<open>\<^verbatim>\<open>a[i]\<close> on an array: \<^verbatim>\<open>undefined\<close> past the end.\<close>

definition at :: "'a list \<Rightarrow> nat \<Rightarrow> 'a option" where
  "at xs i = (if i < length xs then Some (xs ! i) else None)"

text \<open>
  \<^verbatim>\<open>readAuthToken\<close>: a header that is absent or the empty string is falsy; otherwise the
  second piece of the header split at spaces.
\<close>

definition readAuthToken :: "request \<Rightarrow> token option" where
  "readAuthToken req =
     (case authorization req of
        None \<Rightarrow> None
      | Some authHeader \<Rightarrow>
          if authHeader \<noteq> [] then at (split_on CHR '' '' authHeader) 1 else None)"

text \<open>
  \<^verbatim>\<open>req.user.isRole\<close>, the closure \<^verbatim>\<open>setAuthUser\<close> attaches to the verified user.
\<close>

definition isRole :: "user \<Rightarrow> role \<Rightarrow> bool" where
  "isRole u r = (find (\<lambda>e. role e = r) (roles u) \<noteq> None)"

text \<open>
  \<^verbatim>\<open>setAuthUser\<close>: the result is \<^verbatim>\<open>req.user\<close> after the middleware. A token that is
  \<^verbatim>\<open>undefined\<close> or empty is falsy; an exception of \<^verbatim>\<open>jwt.verify\<close> is caught and leaves
  \<^verbatim>\<open>null\<close>.
\<close>

definition setAuthUser :: "jsonwebtoken \<Rightarrow> request \<Rightarrow> db \<Rightarrow> user option \<times> db" where
  "setAuthUser J req d =
     (case readAuthToken req of
        None \<Rightarrow> (None, d)
      | Some t \<Rightarrow>
          if t \<noteq> [] then
            (case isLoggedIn t d of
               (loggedIn, d1) \<Rightarrow>
                 if loggedIn
                 then (case verify J t of Inr u \<Rightarrow> (Some u, d1) | Inl m \<Rightarrow> (None, d1))
                 else (None, d1))
          else (None, d))"

type_synonym handler = "user option \<Rightarrow> request \<Rightarrow> db \<Rightarrow> outcome \<times> db"

text \<open>
  \<^verbatim>\<open>authRouter.authenticateToken\<close>, placed before a handler in a route: 401 when
  \<^verbatim>\<open>req.user\<close> is falsy, the handler otherwise.
\<close>

definition authenticateToken :: "handler \<Rightarrow> handler" where
  "authenticateToken nxt u req d =
     (case u of
        None \<Rightarrow> (Inr (Response 401 (Message ''unauthorized'')), d)
      | Some v \<Rightarrow> nxt u req d)"

text \<open>
  \<^verbatim>\<open>setAuth\<close>: sign, then \<^verbatim>\<open>DB.loginUser(user.id, token)\<close>; reading \<^verbatim>\<open>user.id\<close> of
  \<^verbatim>\<open>null\<close> throws a TypeError before the call.
\<close>

definition setAuth :: "jsonwebtoken \<Rightarrow> user option \<Rightarrow> db \<Rightarrow> (error + token) \<times> db" where
  "setAuth J usr d =
     (case sign J usr of
        Inl m \<Rightarrow> (Inl (JsonWebTokenError m), d)
      | Inr t \<Rightarrow>
          (case usr of
             None \<Rightarrow> (Inl TypeError, d)
           | Some u \<Rightarrow> (Inr t, loginUser (userId u) t d)))"

definition clearAuth :: "request \<Rightarrow> db \<Rightarrow> db" where
  "clearAuth req d =
     (case readAuthToken req of
        None \<Rightarrow> d
      | Some t \<Rightarrow> if t \<noteq> [] then logoutUser t d else d)"

text \<open>\<^verbatim>\<open>authRouter.put('/')\<close>: login.\<close>

definition authRouter_put :: "jsonwebtoken \<Rightarrow> handler" where
  "authRouter_put J u req d =
     (case getUser (email (body req)) (password (body req)) d of
        (usr, d1) \<Rightarrow>
          (case setAuth J usr d1 of
             (Inl e, d2) \<Rightarrow> (Inl e, d2)
           | (Inr t, d2) \<Rightarrow> (Inr (Response 200 (UserAndToken usr t)), d2)))"

text \<open>\<^verbatim>\<open>authRouter.delete('/')\<close>: logout, behind \<^verbatim>\<open>authenticateToken\<close>.\<close>

definition authRouter_delete :: handler where
  "authRouter_delete =
     authenticateToken
       (\<lambda>u req d. (Inr (Response 200 (Message ''logout successful'')), clearAuth req d))"

text \<open>
  Modelled from the spec: the application wiring of \<^verbatim>\<open>service.js\<close>, which is not among the
  sources (spec section 4.2: the Session Authenticator runs once per inbound request, before
  any route-specific logic, and its result is attached to the request).
\<close>

definition app :: "jsonwebtoken \<Rightarrow> handler \<Rightarrow> request \<Rightarrow> db \<Rightarrow> outcome \<times> db" where
  "app J route req d = (case setAuthUser J req d of (u, d1) \<Rightarrow> route u req d1)"

section \<open>franchiseRouter.js\<close>

text \<open>
  \<^verbatim>\<open>franchiseRouter.get('/:userId')\<close>, behind \<^verbatim>\<open>authenticateToken\<close>. Reading
  \<^verbatim>\<open>req.user.id\<close> of an absent user throws a TypeError.
\<close>

definition franchiseRouter_get_userId :: handler where
  "franchiseRouter_get_userId =
     authenticateToken
       (\<lambda>u req d.
          (case u of
             None \<Rightarrow> (Inl TypeError, d)
           | Some usr \<Rightarrow>
               if Integer (userId usr) = userIdParam req \<or> isRole usr Admin then
                 (case getUserFranchises (userIdParam req) d of
                    (result, d1) \<Rightarrow> (Inr (Response 200 (FranchiseList result)), d1))
               else (Inr (Response 200 (FranchiseList [])), d)))"

text \<open>\<^verbatim>\<open>franchiseRouter.delete('/:franchiseId')\<close>: the route has no middleware.\<close>

definition franchiseRouter_delete_franchiseId :: handler where
  "franchiseRouter_delete_franchiseId u req d =
     (Inr (Response 200 (Message ''franchise deleted'')), deleteFranchise (franchiseIdParam req) d)"

text \<open>
  The condition of both store handlers: the franchise is \<^verbatim>\<open>null\<close>, or the user is neither an
  Admin nor one of \<^verbatim>\<open>franchise.admins\<close>. The disjunction is evaluated left to right, so
  \<^verbatim>\<open>req.user\<close> is read only for a franchise that exists.
\<close>

definition franchiseRouter_post_store :: handler where
  "franchiseRouter_post_store =
     authenticateToken
       (\<lambda>u req d.
          (case getFranchise (franchiseIdParam req) d of
             (None, d1) \<Rightarrow> (Inl (StatusCodeError ''unable to create a store'' 403), d1)
           | (Some f, d1) \<Rightarrow>
               (case u of
                  None \<Rightarrow> (Inl TypeError, d1)
                | Some usr \<Rightarrow>
                    if \<not> isRole usr Admin \<and> \<not> list_ex (\<lambda>a. adminId a = userId usr) (admins f)
                    then (Inl (StatusCodeError ''unable to create a store'' 403), d1)
                    else
                      (case createStore (franchiseId f) (body req) d1 of
                         (s, d2) \<Rightarrow> (Inr (Response 200 (StoreJson s)), d2)))))"

definition franchiseRouter_delete_store :: handler where
  "franchiseRouter_delete_store =
     authenticateToken
       (\<lambda>u req d.
          (case getFranchise (franchiseIdParam req) d of
             (None, d1) \<Rightarrow> (Inl (StatusCodeError ''unable to delete a store'' 403), d1)
           | (Some f, d1) \<Rightarrow>
               (case u of
                  None \<Rightarrow> (Inl TypeError, d1)
                | Some usr \<Rightarrow>
                    if \<not> isRole usr Admin \<and> \<not> list_ex (\<lambda>a. adminId a = userId usr) (admins f)
                    then (Inl (StatusCodeError ''unable to delete a store'' 403), d1)
                    else
                      (Inr (Response 200 (Message ''store deleted'')),
                       deleteStore (franchiseIdParam req) (storeIdParam req) d1))))"

section \<open>userRouter.js\<close>

text \<open>\<^verbatim>\<open>userRouter.put('/:userId')\<close>, behind \<^verbatim>\<open>authenticateToken\<close>.\<close>

definition userRouter_put :: "jsonwebtoken \<Rightarrow> handler" where
  "userRouter_put J =
     authenticateToken
       (\<lambda>u req d.
          (case u of
             None \<Rightarrow> (Inl TypeError, d)
           | Some usr \<Rightarrow>
               if Integer (userId usr) \<noteq> userIdParam req \<and> \<not> isRole usr Admin
               then (Inr (Response 403 (Message ''unauthorized'')), d)
               else
                 (case updateUser (userIdParam req) (name (body req)) (email (body req))
                         (password (body req)) d of
                    (updatedUser, d1) \<Rightarrow>
                      (case setAuth J updatedUser d1 of
                         (Inl e, d2) \<Rightarrow> (Inl e, d2)
                       | (Inr t, d2) \<Rightarrow>
                           (Inr (Response 200 (UserAndToken updatedUser t)), d2)))))"

section \<open>Concrete scenarios\<close>

text \<open>
  A codec given by a table of the tokens issued, for running the handlers on concrete
  requests: signing looks the user up, verifying looks the token up, and anything else throws.
\<close>

definition tableCodec :: "(token \<times> user) list \<Rightarrow> jsonwebtoken" where
  "tableCodec tbl =
     \<lparr>sign = (\<lambda>usr. case find (\<lambda>(t, v). Some v = usr) tbl of
                       None \<Rightarrow> Inl ''payload is not signable''
                     | Some (t, v) \<Rightarrow> Inr t),
      verify = (\<lambda>t. case map_of tbl t of
                       None \<Rightarrow> Inl ''invalid token''
                     | Some v \<Rightarrow> Inr v)\<rparr>"

definition adminUser :: user where
  "adminUser = \<lparr>userId = 1, userName = ''admin'', userEmail = ''a@jwt.com'',
     roles = [\<lparr>role = Admin\<rparr>]\<rparr>"

definition dinerUser :: user where
  "dinerUser = \<lparr>userId = 2, userName = ''pizza diner'', userEmail = ''d@jwt.com'',
     roles = [\<lparr>role = Diner\<rparr>]\<rparr>"

definition franchiseeUser :: user where
  "franchiseeUser = \<lparr>userId = 4, userName = ''pizza franchisee'', userEmail = ''f@jwt.com'',
     roles = [\<lparr>role = Diner\<rparr>, \<lparr>role = Franchisee\<rparr>]\<rparr>"

definition codec :: jsonwebtoken where
  "codec = tableCodec [(''aaa'', adminUser), (''ddd'', dinerUser), (''fff'', franchiseeUser),
     (''ddd2'', dinerUser\<lparr>userName := ''dana''\<rparr>)]"

definition pizzaPocket :: franchise where
  "pizzaPocket = \<lparr>franchiseId = 1, franchiseName = ''pizzaPocket'',
     admins = [\<lparr>adminId = 4, adminName = ''pizza franchisee'', adminEmail = ''f@jwt.com''\<rparr>],
     stores = [\<lparr>storeId = 1, storeName = Some ''SLC''\<rparr>]\<rparr>"

text \<open>
  A database with three users, one franchise with one store, and a session for the diner and
  for the franchisee.
\<close>

definition db0 :: db where
  "db0 = \<lparr>tables = \<lparr>users = [\<lparr>profile = adminUser, secret = ''admin''\<rparr>,
                               \<lparr>profile = dinerUser, secret = ''diner''\<rparr>,
                               \<lparr>profile = franchiseeUser, secret = ''franchisee''\<rparr>],
                      auth = [''ddd'' \<mapsto> 2, ''fff'' \<mapsto> 4],
                      franchises = [pizzaPocket]\<rparr>,
           calls = []\<rparr>"

definition request0 :: request where
  "request0 = \<lparr>authorization = None, userIdParam = NonInteger, franchiseIdParam = NonInteger,
     storeIdParam = NonInteger, body = \<lparr>name = None, email = None, password = None\<rparr>\<rparr>"

text \<open>The empty request with the header \<^verbatim>\<open>Authorization: Bearer t\<close>.\<close>

definition bearer :: "token \<Rightarrow> request" where
  "bearer t = request0\<lparr>authorization := Some (''Bearer '' @ t)\<rparr>"

text \<open>A codec whose \<^verbatim>\<open>sign\<close> accepts any payload, \<^verbatim>\<open>null\<close> included.\<close>

definition lenientCodec :: jsonwebtoken where
  "lenientCodec = codec\<lparr>sign := (\<lambda>usr. Inr ''ttt'')\<rparr>"

text \<open>Two login requests: the diner's email with a wrong password, and the admin's credentials.\<close>

definition wrongPassword :: request where
  "wrongPassword = request0\<lparr>body := \<lparr>name = None, email = Some ''d@jwt.com'', password = Some ''wrong''\<rparr>\<rparr>"

definition rightPassword :: request where
  "rightPassword = request0\<lparr>body := \<lparr>name = None, email = Some ''a@jwt.com'', password = Some ''admin''\<rparr>\<rparr>"

section \<open>Database and parsing facts\<close>

lemmas scenario_defs = bearer_def request0_def db0_def codec_def tableCodec_def pizzaPocket_def
  adminUser_def dinerUser_def franchiseeUser_def

lemmas route_defs = app_def setAuthUser_def readAuthToken_def at_def authenticateToken_def isRole_def
  setAuth_def clearAuth_def authRouter_put_def authRouter_delete_def franchiseRouter_get_userId_def
  franchiseRouter_delete_franchiseId_def franchiseRouter_post_store_def
  franchiseRouter_delete_store_def userRouter_put_def

lemmas database_defs = isLoggedIn_def loginUser_def logoutUser_def getUser_def updateUser_def amend_def
  getFranchise_def getUserFranchises_def createStore_def freshStoreId_def deleteStore_def
  deleteFranchise_def logged_def written_def Let_def

lemma split_on_not_Nil: "split_on c s \<noteq> []"
  by (induction s) (auto split: list.splits)

lemma tables_logged: "tables (logged c d) = tables d"
  by (simp add: logged_def)

lemma calls_logged: "calls (logged c d) = calls d @ [c]"
  by (simp add: logged_def)

lemma tables_written: "tables (written f d) = f (tables d)"
  by (simp add: written_def)

lemma calls_written: "calls (written f d) = calls d"
  by (simp add: written_def)

lemmas db_simps = tables_logged calls_logged tables_written calls_written

lemma split_on_no_sep: "c \<notin> set s \<Longrightarrow> split_on c s = [s]"
  by (induction s) auto

lemma split_on_append: "c \<notin> set a \<Longrightarrow> split_on c (a @ c # b) = a # split_on c b"
  by (induction a) auto

lemma second_piece:
  assumes "c \<notin> set a" and "c \<notin> set t" and "rest = [] \<or> hd rest = c"
  shows "at (split_on c (a @ c # t @ rest)) 1 = Some t"
proof (cases rest)
  case Nil
  then show ?thesis using assms by (simp add: at_def split_on_append split_on_no_sep)
next
  case (Cons x r)
  with assms have "rest = c # r" by simp
  then show ?thesis using assms by (simp add: at_def split_on_append)
qed

lemma setAuthUser_cases:
  "setAuthUser J req d =
     (case readAuthToken req of
        None \<Rightarrow> (None, d)
      | Some t \<Rightarrow>
          if t = [] then (None, d)
          else (if auth (tables d) t \<noteq> None
                then (case verify J t of Inl m \<Rightarrow> None | Inr u \<Rightarrow> Some u) else None,
                logged (IsLoggedIn t) d))"
  by (simp add: setAuthUser_def isLoggedIn_def split: option.splits sum.splits)

lemma setAuthUser_Some:
  "fst (setAuthUser J req d) = Some u \<longleftrightarrow>
   (\<exists>t. readAuthToken req = Some t \<and> t \<noteq> [] \<and> auth (tables d) t \<noteq> None \<and> verify J t = Inr u)"
  by (auto simp: setAuthUser_cases split: option.splits sum.splits if_splits)

lemma setAuthUser_SomeD:
  "fst (setAuthUser J req d) = Some u \<Longrightarrow>
   \<exists>t. readAuthToken req = Some t \<and> t \<noteq> [] \<and> auth (tables d) t \<noteq> None \<and> verify J t = Inr u \<and>
       setAuthUser J req d = (Some u, logged (IsLoggedIn t) d)"
  by (auto simp: setAuthUser_cases split: option.splits sum.splits if_splits)

lemma setAuthUser_tables: "tables (snd (setAuthUser J req d)) = tables d"
  by (simp add: setAuthUser_cases db_simps split: option.splits)

section \<open>Authentication\<close>

text \<open>
  Claim C1. A request is authenticated (\<^verbatim>\<open>req.user\<close> is set) only if its token has a live
  session (\<^verbatim>\<open>DB.isLoggedIn\<close>) and \<^verbatim>\<open>jwt.verify\<close> accepts it. A token with no Session
  Record, and so a token just logged out, yields no user, whatever \<^verbatim>\<open>jwt.verify\<close> says of it.
\<close>

theorem setAuthUser_live_and_verified:
  "(fst (setAuthUser J req d) = Some u \<longrightarrow>
      (\<exists>t. readAuthToken req = Some t \<and> t \<noteq> [] \<and> fst (isLoggedIn t d) \<and> verify J t = Inr u))
   \<and> (readAuthToken req = Some t \<and> \<not> fst (isLoggedIn t d) \<longrightarrow> fst (setAuthUser J req d) = None)
   \<and> (readAuthToken req = Some t \<longrightarrow> fst (setAuthUser J req (logoutUser t d)) = None)"
  by (auto simp: setAuthUser_cases isLoggedIn_def logoutUser_def db_simps
      split: option.splits sum.splits if_splits)

theorem setAuthUser_live_and_verified_witness:
  "fst (setAuthUser codec (request0\<lparr>authorization := Some ''Bearer ddd''\<rparr>) db0) = Some dinerUser
   \<and> readAuthToken (request0\<lparr>authorization := Some ''Bearer ddd''\<rparr>) = Some ''ddd''
   \<and> fst (isLoggedIn ''ddd'' db0)
   \<and> verify codec ''ddd'' = Inr dinerUser
   \<and> fst (setAuthUser codec (request0\<lparr>authorization := Some ''Bearer ddd''\<rparr>) (logoutUser ''ddd'' db0)) = None
   \<and> readAuthToken (request0\<lparr>authorization := Some ''Bearer aaa''\<rparr>) = Some ''aaa''
   \<and> \<not> fst (isLoggedIn ''aaa'' db0)
   \<and> verify codec ''aaa'' = Inr adminUser
   \<and> fst (setAuthUser codec (request0\<lparr>authorization := Some ''Bearer aaa''\<rparr>) db0) = None"
  using setAuthUser_live_and_verified [of codec "request0\<lparr>authorization := Some ''Bearer ddd''\<rparr>" db0 dinerUser "''ddd''"]
    setAuthUser_live_and_verified [of codec "request0\<lparr>authorization := Some ''Bearer aaa''\<rparr>" db0 adminUser "''aaa''"]
  by (simp add: setAuthUser_def readAuthToken_def at_def isLoggedIn_def codec_def tableCodec_def db0_def request0_def)

text \<open>
  Claim C3, as stated: a header whose prefix is not \<^verbatim>\<open>Bearer\<close> yields no user. The header
  \<^verbatim>\<open>Basic ddd\<close> authenticates the diner: \<^verbatim>\<open>readAuthToken\<close> never looks at the first piece.
\<close>

theorem bearer_scheme_counterexample:
  "take 7 ''Basic ddd'' \<noteq> ''Bearer ''
   \<and> fst (setAuthUser codec (request0\<lparr>authorization := Some ''Basic ddd''\<rparr>) db0) = Some dinerUser"
  by (simp add: setAuthUser_def readAuthToken_def at_def isLoggedIn_def codec_def tableCodec_def db0_def request0_def)

text \<open>
  Claim C3, amended. With no Authorization header, or with one that holds no space,
  \<^verbatim>\<open>setAuthUser\<close> leaves the request anonymous and does not touch the database. Otherwise the
  token is the text between the first and the second space, whatever stands before the first
  space, and the request is authenticated exactly when that token is not empty, has a live
  session and verifies. No case raises an error.
\<close>

theorem setAuthUser_second_piece:
  "(authorization req = None \<longrightarrow> setAuthUser J req d = (None, d))
   \<and> (authorization req = Some h \<and> CHR '' '' \<notin> set h \<longrightarrow> setAuthUser J req d = (None, d))
   \<and> (authorization req = Some (scheme @ CHR '' '' # t @ rest) \<and> CHR '' '' \<notin> set scheme
        \<and> CHR '' '' \<notin> set t \<and> (rest = [] \<or> hd rest = CHR '' '') \<longrightarrow>
      fst (setAuthUser J req d) =
        (if t \<noteq> [] \<and> auth (tables d) t \<noteq> None
         then (case verify J t of Inl m \<Rightarrow> None | Inr u \<Rightarrow> Some u) else None))"
proof (intro conjI impI)
  assume "authorization req = None"
  then show "setAuthUser J req d = (None, d)"
    by (simp add: setAuthUser_def readAuthToken_def)
next
  assume "authorization req = Some h \<and> CHR '' '' \<notin> set h"
  then have "readAuthToken req = None"
    by (simp add: readAuthToken_def at_def split_on_no_sep)
  then show "setAuthUser J req d = (None, d)"
    by (simp add: setAuthUser_def)
next
  assume a: "authorization req = Some (scheme @ CHR '' '' # t @ rest) \<and> CHR '' '' \<notin> set scheme
        \<and> CHR '' '' \<notin> set t \<and> (rest = [] \<or> hd rest = CHR '' '')"
  then have "readAuthToken req = Some t"
    using second_piece [of "CHR '' ''" scheme t rest] by (simp add: readAuthToken_def)
  then show "fst (setAuthUser J req d) =
        (if t \<noteq> [] \<and> auth (tables d) t \<noteq> None
         then (case verify J t of Inl m \<Rightarrow> None | Inr u \<Rightarrow> Some u) else None)"
    by (simp add: setAuthUser_cases)
qed

theorem setAuthUser_second_piece_witness:
  "authorization request0 = None \<and> setAuthUser codec request0 db0 = (None, db0)
   \<and> setAuthUser codec (request0\<lparr>authorization := Some ''ddd''\<rparr>) db0 = (None, db0)
   \<and> fst (setAuthUser codec (request0\<lparr>authorization := Some ''Basic ddd''\<rparr>) db0) = Some dinerUser
   \<and> fst (setAuthUser codec (request0\<lparr>authorization := Some ''Bearer ddd x''\<rparr>) db0) = Some dinerUser"
  using setAuthUser_second_piece [of request0 codec db0]
    setAuthUser_second_piece [of "request0\<lparr>authorization := Some ''ddd''\<rparr>" codec db0 "''ddd''"]
    setAuthUser_second_piece [of "request0\<lparr>authorization := Some ''Basic ddd''\<rparr>" codec db0 _ "''Basic''" "''ddd''" "[]"]
    setAuthUser_second_piece [of "request0\<lparr>authorization := Some ''Bearer ddd x''\<rparr>" codec db0 _ "''Bearer''" "''ddd''" "'' x''"]
  by (simp add: codec_def tableCodec_def db0_def request0_def)

section \<open>Routes behind the authenticator\<close>

lemma app_authenticated:
  assumes "fst (setAuthUser J req d) = Some u"
  shows "\<exists>t. readAuthToken req = Some t \<and> t \<noteq> [] \<and> auth (tables d) t \<noteq> None \<and>
             verify J t = Inr u \<and> app J route req d = route (Some u) req (logged (IsLoggedIn t) d)"
  using setAuthUser_SomeD [OF assms] by (auto simp: app_def)

lemma app_anonymous:
  assumes "fst (setAuthUser J req d) = None"
  shows "tables (snd (setAuthUser J req d)) = tables d \<and>
         app J route req d = route None req (snd (setAuthUser J req d))"
  using assms by (cases "setAuthUser J req d") (simp add: app_def setAuthUser_tables [of J req d, symmetric])

lemma getFranchise_logged: "fst (getFranchise fid (logged c d)) = fst (getFranchise fid d)"
  by (simp add: getFranchise_def db_simps)

lemma list_ex_adminId: "list_ex (\<lambda>a. adminId a = i) xs \<longleftrightarrow> i \<in> adminId ` set xs"
  by (auto simp: list_ex_iff)

lemma post_store_authenticated:
  assumes "fst (getFranchise (franchiseIdParam req) d) = Some f"
  shows "franchiseRouter_post_store (Some usr) req d =
     (if \<not> isRole usr Admin \<and> userId usr \<notin> adminId ` set (admins f)
      then (Inl (StatusCodeError ''unable to create a store'' 403), logged (GetFranchise (franchiseIdParam req)) d)
      else (Inr (Response 200 (StoreJson (fst (createStore (franchiseId f) (body req) d)))),
            snd (createStore (franchiseId f) (body req) (logged (GetFranchise (franchiseIdParam req)) d))))"
  using assms
  by (auto simp: franchiseRouter_post_store_def authenticateToken_def getFranchise_def createStore_def
      db_simps list_ex_adminId Let_def)

lemma delete_store_authenticated:
  assumes "fst (getFranchise (franchiseIdParam req) d) = Some f"
  shows "franchiseRouter_delete_store (Some usr) req d =
     (if \<not> isRole usr Admin \<and> userId usr \<notin> adminId ` set (admins f)
      then (Inl (StatusCodeError ''unable to delete a store'' 403), logged (GetFranchise (franchiseIdParam req)) d)
      else (Inr (Response 200 (Message ''store deleted'')),
            deleteStore (franchiseIdParam req) (storeIdParam req) (logged (GetFranchise (franchiseIdParam req)) d)))"
  using assms
  by (auto simp: franchiseRouter_delete_store_def authenticateToken_def getFranchise_def 
      db_simps list_ex_adminId)

lemma tables_createStore_logged:
  "tables (snd (createStore fid b (logged c d))) = tables (snd (createStore fid b d))"
  by (simp add: createStore_def db_simps Let_def)

lemma tables_deleteStore_logged:
  "tables (deleteStore fid sid (logged c d)) = tables (deleteStore fid sid d)"
  by (simp add: deleteStore_def db_simps)

section \<open>Store creation and deletion\<close>

text \<open>
  Claim C5. For an authenticated user and a franchise that exists with admins S, creating a
  store and deleting a store are rejected with the 403 error exactly when the user is neither
  an Admin nor has its id among the ids of S. Otherwise the request is answered 200 and the
  tables are those the database operation leaves; in particular an Admin passes whatever S is.
  A rejected request changes no table.
\<close>

theorem store_routes_admin_or_owner:
  assumes "fst (setAuthUser J req d) = Some usr"
    and "fst (getFranchise (franchiseIdParam req) d) = Some f"
  shows "((fst (app J franchiseRouter_post_store req d) =
             Inl (StatusCodeError ''unable to create a store'' 403))
          \<longleftrightarrow> \<not> (isRole usr Admin \<or> userId usr \<in> adminId ` set (admins f)))
       \<and> ((fst (app J franchiseRouter_delete_store req d) =
             Inl (StatusCodeError ''unable to delete a store'' 403))
          \<longleftrightarrow> \<not> (isRole usr Admin \<or> userId usr \<in> adminId ` set (admins f)))
       \<and> (isRole usr Admin \<or> userId usr \<in> adminId ` set (admins f) \<longrightarrow>
            fst (app J franchiseRouter_post_store req d) =
              Inr (Response 200 (StoreJson (fst (createStore (franchiseId f) (body req) d))))
          \<and> tables (snd (app J franchiseRouter_post_store req d)) =
              tables (snd (createStore (franchiseId f) (body req) d))
          \<and> fst (app J franchiseRouter_delete_store req d) =
              Inr (Response 200 (Message ''store deleted''))
          \<and> tables (snd (app J franchiseRouter_delete_store req d)) =
              tables (deleteStore (franchiseIdParam req) (storeIdParam req) d))
       \<and> (\<not> (isRole usr Admin \<or> userId usr \<in> adminId ` set (admins f)) \<longrightarrow>
            tables (snd (app J franchiseRouter_post_store req d)) = tables d
          \<and> tables (snd (app J franchiseRouter_delete_store req d)) = tables d)"
proof -
  obtain t where
    post: "app J franchiseRouter_post_store req d =
             franchiseRouter_post_store (Some usr) req (logged (IsLoggedIn t) d)"
    using app_authenticated [OF assms(1), of franchiseRouter_post_store] by blast
  obtain t' where
    del: "app J franchiseRouter_delete_store req d =
             franchiseRouter_delete_store (Some usr) req (logged (IsLoggedIn t') d)"
    using app_authenticated [OF assms(1), of franchiseRouter_delete_store] by blast
  have f: "fst (getFranchise (franchiseIdParam req) (logged (IsLoggedIn t) d)) = Some f"
    "fst (getFranchise (franchiseIdParam req) (logged (IsLoggedIn t') d)) = Some f"
    using assms(2) by (simp_all add: getFranchise_logged)
  show ?thesis
    unfolding post del post_store_authenticated [OF f(1)] delete_store_authenticated [OF f(2)]
    by (simp add: db_simps tables_createStore_logged tables_deleteStore_logged createStore_def Let_def)
qed

theorem store_routes_admin_or_owner_witness:
  "fst (setAuthUser codec ((bearer ''fff'')\<lparr>franchiseIdParam := Integer 1, storeIdParam := Integer 1\<rparr>) db0)
     = Some franchiseeUser
   \<and> fst (getFranchise (Integer 1) db0) = Some pizzaPocket
   \<and> userId franchiseeUser \<in> adminId ` set (admins pizzaPocket)
   \<and> fst (app codec franchiseRouter_post_store
            ((bearer ''fff'')\<lparr>franchiseIdParam := Integer 1, storeIdParam := Integer 1\<rparr>) db0)
       = Inr (Response 200 (StoreJson \<lparr>storeId = 2, storeName = None\<rparr>))
   \<and> fst (app codec franchiseRouter_delete_store
            ((bearer ''fff'')\<lparr>franchiseIdParam := Integer 1, storeIdParam := Integer 1\<rparr>) db0)
       = Inr (Response 200 (Message ''store deleted''))
   \<and> fst (setAuthUser codec ((bearer ''ddd'')\<lparr>franchiseIdParam := Integer 1, storeIdParam := Integer 1\<rparr>) db0)
     = Some dinerUser
   \<and> \<not> (isRole dinerUser Admin \<or> userId dinerUser \<in> adminId ` set (admins pizzaPocket))
   \<and> fst (app codec franchiseRouter_post_store
            ((bearer ''ddd'')\<lparr>franchiseIdParam := Integer 1, storeIdParam := Integer 1\<rparr>) db0)
       = Inl (StatusCodeError ''unable to create a store'' 403)
   \<and> fst (app codec franchiseRouter_delete_store
            ((bearer ''ddd'')\<lparr>franchiseIdParam := Integer 1, storeIdParam := Integer 1\<rparr>) db0)
       = Inl (StatusCodeError ''unable to delete a store'' 403)
   \<and> tables (snd (app codec franchiseRouter_delete_store
            ((bearer ''ddd'')\<lparr>franchiseIdParam := Integer 1, storeIdParam := Integer 1\<rparr>) db0))
       = tables db0
   \<and> fst (setAuthUser codec ((bearer ''aaa'')\<lparr>franchiseIdParam := Integer 1, storeIdParam := Integer 1\<rparr>)
        (loginUser 1 ''aaa'' db0)) = Some adminUser
   \<and> isRole adminUser Admin
   \<and> userId adminUser \<notin> adminId ` set (admins pizzaPocket)
   \<and> fst (app codec franchiseRouter_delete_store
            ((bearer ''aaa'')\<lparr>franchiseIdParam := Integer 1, storeIdParam := Integer 1\<rparr>)
            (loginUser 1 ''aaa'' db0))
       = Inr (Response 200 (Message ''store deleted''))"
  using
    store_routes_admin_or_owner [of codec
      "(bearer ''fff'')\<lparr>franchiseIdParam := Integer 1, storeIdParam := Integer 1\<rparr>" db0
      franchiseeUser pizzaPocket]
    store_routes_admin_or_owner [of codec
      "(bearer ''ddd'')\<lparr>franchiseIdParam := Integer 1, storeIdParam := Integer 1\<rparr>" db0
      dinerUser pizzaPocket]
    store_routes_admin_or_owner [of codec
      "(bearer ''aaa'')\<lparr>franchiseIdParam := Integer 1, storeIdParam := Integer 1\<rparr>"
      "loginUser 1 ''aaa'' db0" adminUser pizzaPocket]
  by (simp add: scenario_defs route_defs database_defs)

section \<open>Franchise routes\<close>

lemma delete_franchise_any_request:
  "fst (app J franchiseRouter_delete_franchiseId req d) = Inr (Response 200 (Message ''franchise deleted''))
   \<and> franchises (tables (snd (app J franchiseRouter_delete_franchiseId req d))) =
       filter (\<lambda>f. Integer (franchiseId f) \<noteq> franchiseIdParam req) (franchises (tables d))"
  by (cases "setAuthUser J req d")
     (simp add: app_def franchiseRouter_delete_franchiseId_def deleteFranchise_def db_simps
        setAuthUser_tables [of J req d, symmetric])

text \<open>
  Claim C2 says that every mutating operation, deleting a franchise included, checks
  authentication and the admin-or-owner rule first and answers 401 or 403 without mutating.
  The route \<^verbatim>\<open>DELETE /api/franchise/:franchiseId\<close> has neither check, although
  \<^verbatim>\<open>franchiseRouter.docs\<close> lists it with \<^verbatim>\<open>requiresAuth: true\<close>: a request with no
  Authorization header deletes franchise 1 and is answered 200. The sibling route that deletes
  a store answers the same anonymous request 401 and leaves the database as it was.
\<close>

theorem franchise_deleted_by_anonymous:
  "authorization (request0\<lparr>franchiseIdParam := Integer 1\<rparr>) = None
   \<and> fst (setAuthUser codec (request0\<lparr>franchiseIdParam := Integer 1\<rparr>) db0) = None
   \<and> franchises (tables db0) = [pizzaPocket]
   \<and> fst (app codec franchiseRouter_delete_franchiseId (request0\<lparr>franchiseIdParam := Integer 1\<rparr>) db0)
       = Inr (Response 200 (Message ''franchise deleted''))
   \<and> franchises (tables (snd (app codec franchiseRouter_delete_franchiseId
        (request0\<lparr>franchiseIdParam := Integer 1\<rparr>) db0))) = []
   \<and> app codec franchiseRouter_delete_store
        (request0\<lparr>franchiseIdParam := Integer 1, storeIdParam := Integer 1\<rparr>) db0
       = (Inr (Response 401 (Message ''unauthorized'')), db0)"
  by (simp add: scenario_defs route_defs database_defs)

text \<open>
  Claim C10. An authenticated user who is neither the user of the path nor an Admin gets the
  empty list with status 200; no table changes, and the only database call of the request is
  the session check of the authenticator, so \<^verbatim>\<open>DB.getUserFranchises\<close> is not called.
\<close>

theorem other_users_franchises_empty:
  assumes "fst (setAuthUser J req d) = Some usr"
    and "userIdParam req \<noteq> Integer (userId usr)"
    and "\<not> isRole usr Admin"
  shows "fst (app J franchiseRouter_get_userId req d) = Inr (Response 200 (FranchiseList []))
       \<and> tables (snd (app J franchiseRouter_get_userId req d)) = tables d
       \<and> (\<exists>t. calls (snd (app J franchiseRouter_get_userId req d)) = calls d @ [IsLoggedIn t])"
proof -
  obtain t where
    "app J franchiseRouter_get_userId req d =
       franchiseRouter_get_userId (Some usr) req (logged (IsLoggedIn t) d)"
    using app_authenticated [OF assms(1), of franchiseRouter_get_userId] by blast
  moreover have "Integer (userId usr) \<noteq> userIdParam req"
    using assms(2) by auto
  ultimately show ?thesis
    using assms(3) by (simp add: franchiseRouter_get_userId_def authenticateToken_def db_simps)
qed

theorem other_users_franchises_empty_witness:
  "fst (setAuthUser codec ((bearer ''ddd'')\<lparr>userIdParam := Integer 4\<rparr>) db0) = Some dinerUser
   \<and> userIdParam ((bearer ''ddd'')\<lparr>userIdParam := Integer 4\<rparr>) \<noteq> Integer (userId dinerUser)
   \<and> \<not> isRole dinerUser Admin
   \<and> fst (getUserFranchises (Integer 4) db0) = [pizzaPocket]
   \<and> fst (app codec franchiseRouter_get_userId ((bearer ''ddd'')\<lparr>userIdParam := Integer 4\<rparr>) db0)
       = Inr (Response 200 (FranchiseList []))
   \<and> calls (snd (app codec franchiseRouter_get_userId ((bearer ''ddd'')\<lparr>userIdParam := Integer 4\<rparr>) db0))
       = [IsLoggedIn ''ddd'']
   \<and> fst (app codec franchiseRouter_get_userId ((bearer ''fff'')\<lparr>userIdParam := Integer 4\<rparr>) db0)
       = Inr (Response 200 (FranchiseList [pizzaPocket]))
   \<and> calls (snd (app codec franchiseRouter_get_userId ((bearer ''fff'')\<lparr>userIdParam := Integer 4\<rparr>) db0))
       = [IsLoggedIn ''fff'', GetUserFranchises (Integer 4)]"
  using other_users_franchises_empty [of codec "(bearer ''ddd'')\<lparr>userIdParam := Integer 4\<rparr>" db0 dinerUser]
  by (simp add: scenario_defs route_defs database_defs)

section \<open>Updating a user\<close>

lemma users_setAuth: "users (tables (snd (setAuth J usr d))) = users (tables d)"
  by (simp add: setAuth_def loginUser_def db_simps split: sum.splits option.splits)

lemma calls_setAuth: "\<exists>rest. calls (snd (setAuth J usr d)) = calls d @ rest"
  by (simp add: setAuth_def loginUser_def db_simps split: sum.splits option.splits)

lemma user_put_authenticated:
  "userRouter_put J (Some usr) req d =
     (if Integer (userId usr) \<noteq> userIdParam req \<and> \<not> isRole usr Admin
      then (Inr (Response 403 (Message ''unauthorized'')), d)
      else (case setAuth J (fst (updateUser (userIdParam req) (name (body req)) (email (body req))
                  (password (body req)) d))
                 (snd (updateUser (userIdParam req) (name (body req)) (email (body req))
                  (password (body req)) d)) of
              (Inl e, d2) \<Rightarrow> (Inl e, d2)
            | (Inr t, d2) \<Rightarrow>
                (Inr (Response 200 (UserAndToken (fst (updateUser (userIdParam req) (name (body req))
                   (email (body req)) (password (body req)) d)) t)), d2)))"
  by (simp add: userRouter_put_def authenticateToken_def case_prod_beta)



lemma auth_loginUser: "auth (tables (loginUser uid t d)) = (auth (tables d))(t \<mapsto> uid)"
  by (simp add: loginUser_def db_simps)

text \<open>
  Claim C7. For an authenticated user, the update is answered 403 exactly when the path's
  user id differs from the user's own id and the user is no Admin. A rejected request changes
  no table and makes no database call but the authenticator's session check. An authorized
  request calls \<^verbatim>\<open>DB.updateUser\<close> and leaves the user table as that call leaves it; the
  franchises play no part, so a user who owns nothing may update the own profile.
\<close>

theorem update_user_self_or_admin:
  assumes "fst (setAuthUser J req d) = Some usr"
  shows "((fst (app J (userRouter_put J) req d) = Inr (Response 403 (Message ''unauthorized'')))
          \<longleftrightarrow> \<not> (userIdParam req = Integer (userId usr) \<or> isRole usr Admin))
       \<and> (\<not> (userIdParam req = Integer (userId usr) \<or> isRole usr Admin) \<longrightarrow>
            tables (snd (app J (userRouter_put J) req d)) = tables d
          \<and> (\<exists>t. calls (snd (app J (userRouter_put J) req d)) = calls d @ [IsLoggedIn t]))
       \<and> (userIdParam req = Integer (userId usr) \<or> isRole usr Admin \<longrightarrow>
            users (tables (snd (app J (userRouter_put J) req d))) =
              users (tables (snd (updateUser (userIdParam req) (name (body req)) (email (body req))
                 (password (body req)) d)))
          \<and> (\<exists>t rest. calls (snd (app J (userRouter_put J) req d)) =
                calls d @ IsLoggedIn t # UpdateUser (userIdParam req) (name (body req))
                  (email (body req)) (password (body req)) # rest))"
proof -
  let ?n = "name (body req)" and ?e = "email (body req)" and ?p = "password (body req)"
  obtain t where
    put: "app J (userRouter_put J) req d = userRouter_put J (Some usr) req (logged (IsLoggedIn t) d)"
    using app_authenticated [OF assms, of "userRouter_put J"] by blast
  let ?d1 = "logged (IsLoggedIn t) d"
  let ?up = "updateUser (userIdParam req) ?n ?e ?p ?d1"
  have neq: "(Integer (userId usr) \<noteq> userIdParam req) = (userIdParam req \<noteq> Integer (userId usr))"
    by auto
  show ?thesis
  proof (cases "userIdParam req = Integer (userId usr) \<or> isRole usr Admin")
    case False
    then show ?thesis
      unfolding put user_put_authenticated by (auto simp: db_simps)
  next
    case True
    obtain r d2 where s: "setAuth J (fst ?up) (snd ?up) = (r, d2)"
      by (cases "setAuth J (fst ?up) (snd ?up)")
    have u: "users (tables d2) = users (tables (snd ?up))"
      using users_setAuth [of J "fst ?up" "snd ?up"] s by simp
    obtain rest where c: "calls d2 = calls (snd ?up) @ rest"
      using calls_setAuth [of J "fst ?up" "snd ?up"] s by auto
    have res: "userRouter_put J (Some usr) req ?d1 =
        (case r of Inl e \<Rightarrow> (Inl e, d2)
         | Inr t \<Rightarrow> (Inr (Response 200 (UserAndToken (fst ?up) t)), d2))"
      using True s unfolding user_put_authenticated by (auto split: sum.splits)
    have "fst (userRouter_put J (Some usr) req ?d1) \<noteq> Inr (Response 403 (Message ''unauthorized''))"
      unfolding res by (simp split: sum.splits)
    moreover have "snd (userRouter_put J (Some usr) req ?d1) = d2"
      unfolding res by (simp split: sum.splits)
    moreover have "users (tables (snd ?up)) =
        users (tables (snd (updateUser (userIdParam req) ?n ?e ?p d)))"
      by (simp add: updateUser_def db_simps)
    moreover have "calls (snd ?up) = calls d @ [IsLoggedIn t, UpdateUser (userIdParam req) ?n ?e ?p]"
      by (simp add: updateUser_def db_simps)
    ultimately show ?thesis
      using True u c unfolding put by auto
  qed
qed

theorem update_user_self_or_admin_witness:
  "fst (setAuthUser codec ((bearer ''ddd'')\<lparr>userIdParam := Integer 4,
          body := \<lparr>name = Some ''dana'', email = None, password = None\<rparr>\<rparr>) db0) = Some dinerUser
   \<and> \<not> (Integer 4 = Integer (userId dinerUser) \<or> isRole dinerUser Admin)
   \<and> app codec (userRouter_put codec) ((bearer ''ddd'')\<lparr>userIdParam := Integer 4,
          body := \<lparr>name = Some ''dana'', email = None, password = None\<rparr>\<rparr>) db0
       = (Inr (Response 403 (Message ''unauthorized'')), db0\<lparr>calls := [IsLoggedIn ''ddd'']\<rparr>)
   \<and> fst (setAuthUser codec ((bearer ''ddd'')\<lparr>userIdParam := Integer 2,
          body := \<lparr>name = Some ''dana'', email = None, password = None\<rparr>\<rparr>) db0) = Some dinerUser
   \<and> Integer 2 = Integer (userId dinerUser) \<and> \<not> isRole dinerUser Admin
   \<and> getUserFranchises (Integer 2) db0 = ([], logged (GetUserFranchises (Integer 2)) db0)
   \<and> fst (app codec (userRouter_put codec) ((bearer ''ddd'')\<lparr>userIdParam := Integer 2,
          body := \<lparr>name = Some ''dana'', email = None, password = None\<rparr>\<rparr>) db0)
       = Inr (Response 200 (UserAndToken (Some (dinerUser\<lparr>userName := ''dana''\<rparr>)) ''ddd2''))
   \<and> map profile (users (tables (snd (app codec (userRouter_put codec) ((bearer ''ddd'')\<lparr>userIdParam := Integer 2,
          body := \<lparr>name = Some ''dana'', email = None, password = None\<rparr>\<rparr>) db0))))
       = [adminUser, dinerUser\<lparr>userName := ''dana''\<rparr>, franchiseeUser]
   \<and> fst (setAuthUser codec ((bearer ''aaa'')\<lparr>userIdParam := Integer 2,
          body := \<lparr>name = Some ''dana'', email = None, password = None\<rparr>\<rparr>) (loginUser 1 ''aaa'' db0))
       = Some adminUser
   \<and> Integer 2 \<noteq> Integer (userId adminUser) \<and> isRole adminUser Admin
   \<and> fst (app codec (userRouter_put codec) ((bearer ''aaa'')\<lparr>userIdParam := Integer 2,
          body := \<lparr>name = Some ''dana'', email = None, password = None\<rparr>\<rparr>) (loginUser 1 ''aaa'' db0))
       = Inr (Response 200 (UserAndToken (Some (dinerUser\<lparr>userName := ''dana''\<rparr>)) ''ddd2''))"
  using
    update_user_self_or_admin [of codec "(bearer ''ddd'')\<lparr>userIdParam := Integer 4,
          body := \<lparr>name = Some ''dana'', email = None, password = None\<rparr>\<rparr>" db0 dinerUser]
    update_user_self_or_admin [of codec "(bearer ''ddd'')\<lparr>userIdParam := Integer 2,
          body := \<lparr>name = Some ''dana'', email = None, password = None\<rparr>\<rparr>" db0 dinerUser]
    update_user_self_or_admin [of codec "(bearer ''aaa'')\<lparr>userIdParam := Integer 2,
          body := \<lparr>name = Some ''dana'', email = None, password = None\<rparr>\<rparr>" "loginUser 1 ''aaa'' db0" adminUser]
  by (simp add: scenario_defs route_defs database_defs)









section \<open>Logout\<close>

lemma delete_route: 
  "authRouter_delete u req d =
     (case u of None \<Rightarrow> (Inr (Response 401 (Message ''unauthorized'')), d)
      | Some v \<Rightarrow> (Inr (Response 200 (Message ''logout successful'')), clearAuth req d))"
  by (simp add: authRouter_delete_def authenticateToken_def)

lemma logout_anonymous:
  assumes "fst (setAuthUser J req d) = None"
  shows "fst (app J authRouter_delete req d) = Inr (Response 401 (Message ''unauthorized''))
       \<and> tables (snd (app J authRouter_delete req d)) = tables d"
  using app_anonymous [OF assms, of authRouter_delete] assms by (simp add: delete_route)

lemma logout_authenticated:
  assumes "fst (setAuthUser J req d) = Some u"
  shows "\<exists>t. readAuthToken req = Some t \<and> t \<noteq> [] \<and>
     app J authRouter_delete req d =
       (Inr (Response 200 (Message ''logout successful'')), logoutUser t (logged (IsLoggedIn t) d))"
  using app_authenticated [OF assms, of authRouter_delete]
  by (auto simp: delete_route clearAuth_def)

text \<open>
  Claim C6, as stated: logging out twice in a row succeeds both times, and logging out a
  token that has no Session Record is no error. The second logout with the diner's token is
  answered 401, and so is a logout with the admin's token, which has no session.
\<close>

theorem logout_twice_counterexample:
  "fst (app codec authRouter_delete (bearer ''ddd'') db0)
     = Inr (Response 200 (Message ''logout successful''))
   \<and> fst (app codec authRouter_delete (bearer ''ddd'')
        (snd (app codec authRouter_delete (bearer ''ddd'') db0)))
     = Inr (Response 401 (Message ''unauthorized''))
   \<and> auth (tables db0) ''aaa'' = None
   \<and> fst (app codec authRouter_delete (bearer ''aaa'') db0)
     = Inr (Response 401 (Message ''unauthorized''))"
  by (simp add: scenario_defs route_defs database_defs)

text \<open>
  Claim C6, amended. The logout route sits behind \<^verbatim>\<open>authenticateToken\<close>: a logout with
  no token, or with a token whose Session Record is absent or cleared, is answered 401 and
  changes no table. A logout that succeeds removes the Session Record of its token; the same
  request sent again is answered 401 and leaves the tables as the first logout left them.
  \<^verbatim>\<open>clearAuth\<close> itself, run twice, leaves the tables as one run does.
\<close>

theorem logout_without_session:
  "((readAuthToken req = None \<or> readAuthToken req = Some t \<and> auth (tables d) t = None) \<longrightarrow>
      fst (app J authRouter_delete req d) = Inr (Response 401 (Message ''unauthorized''))
      \<and> tables (snd (app J authRouter_delete req d)) = tables d)
   \<and> (fst (app J authRouter_delete req d) = Inr (Response 200 (Message ''logout successful'')) \<longrightarrow>
      (\<exists>t. readAuthToken req = Some t \<and> auth (tables d) t \<noteq> None
         \<and> tables (snd (app J authRouter_delete req d)) = (tables d)\<lparr>auth := (auth (tables d))(t := None)\<rparr>)
      \<and> fst (app J authRouter_delete req (snd (app J authRouter_delete req d)))
          = Inr (Response 401 (Message ''unauthorized''))
      \<and> tables (snd (app J authRouter_delete req (snd (app J authRouter_delete req d))))
          = tables (snd (app J authRouter_delete req d)))
   \<and> tables (clearAuth req (clearAuth req d)) = tables (clearAuth req d)"
proof -
  have absent: "fst (app J authRouter_delete req d) = Inr (Response 401 (Message ''unauthorized''))
      \<and> tables (snd (app J authRouter_delete req d)) = tables d"
    if "readAuthToken req = None \<or> readAuthToken req = Some t \<and> auth (tables d) t = None"
  proof -
    have "fst (setAuthUser J req d) = None"
      using that by (auto simp: setAuthUser_cases)
    then show ?thesis by (rule logout_anonymous)
  qed
  have twice: "(\<exists>t. readAuthToken req = Some t \<and> auth (tables d) t \<noteq> None
         \<and> tables (snd (app J authRouter_delete req d)) = (tables d)\<lparr>auth := (auth (tables d))(t := None)\<rparr>)
      \<and> fst (app J authRouter_delete req (snd (app J authRouter_delete req d)))
          = Inr (Response 401 (Message ''unauthorized''))
      \<and> tables (snd (app J authRouter_delete req (snd (app J authRouter_delete req d))))
          = tables (snd (app J authRouter_delete req d))"
    if ok: "fst (app J authRouter_delete req d) = Inr (Response 200 (Message ''logout successful''))"
  proof -
    have "fst (setAuthUser J req d) \<noteq> None"
      using ok logout_anonymous [of J req d] by auto
    then obtain u where u: "fst (setAuthUser J req d) = Some u" by auto
    obtain t where t: "readAuthToken req = Some t" "t \<noteq> []"
      and out: "app J authRouter_delete req d =
         (Inr (Response 200 (Message ''logout successful'')), logoutUser t (logged (IsLoggedIn t) d))"
      using logout_authenticated [OF u] by blast
    have live: "auth (tables d) t \<noteq> None"
      using u t by (auto simp: setAuthUser_Some)
    let ?d1 = "snd (app J authRouter_delete req d)"
    have tab: "tables ?d1 = (tables d)\<lparr>auth := (auth (tables d))(t := None)\<rparr>"
      by (simp add: out logoutUser_def db_simps)
    then have "auth (tables ?d1) t = None" by simp
    then have anon: "fst (setAuthUser J req ?d1) = None"
      using t by (simp add: setAuthUser_cases)
    show ?thesis
      using t(1) live tab logout_anonymous [OF anon] by blast
  qed
  have clear: "tables (clearAuth req (clearAuth req d)) = tables (clearAuth req d)"
    by (simp add: clearAuth_def logoutUser_def db_simps split: option.splits)
  show ?thesis
    using absent twice clear by blast
qed

theorem logout_without_session_witness:
  "readAuthToken (bearer ''aaa'') = Some ''aaa'' \<and> auth (tables db0) ''aaa'' = None
   \<and> fst (app codec authRouter_delete (bearer ''aaa'') db0) = Inr (Response 401 (Message ''unauthorized''))
   \<and> tables (snd (app codec authRouter_delete (bearer ''aaa'') db0)) = tables db0
   \<and> readAuthToken request0 = None
   \<and> fst (app codec authRouter_delete request0 db0) = Inr (Response 401 (Message ''unauthorized''))
   \<and> fst (app codec authRouter_delete (bearer ''ddd'') db0) = Inr (Response 200 (Message ''logout successful''))
   \<and> auth (tables (snd (app codec authRouter_delete (bearer ''ddd'') db0))) ''ddd'' = None
   \<and> fst (app codec authRouter_delete (bearer ''ddd'') (snd (app codec authRouter_delete (bearer ''ddd'') db0)))
       = Inr (Response 401 (Message ''unauthorized''))
   \<and> tables (snd (app codec authRouter_delete (bearer ''ddd'') (snd (app codec authRouter_delete (bearer ''ddd'') db0))))
       = tables (snd (app codec authRouter_delete (bearer ''ddd'') db0))"
  using logout_without_session [of "bearer ''aaa''" "''aaa''" db0 codec]
    logout_without_session [of request0 _ db0 codec]
    logout_without_session [of "bearer ''ddd''" _ db0 codec]
  by (simp add: scenario_defs route_defs database_defs)

section \<open>Login\<close>

lemma fst_getUser_tables:
  "tables d1 = tables d \<Longrightarrow> fst (getUser e p d1) = fst (getUser e p d)"
  by (simp add: getUser_def)

lemma tables_getUser: "tables (snd (getUser e p d)) = tables d"
  by (simp add: getUser_def db_simps)

lemma login_route:
  "authRouter_put J u req d =
     (case setAuth J (fst (getUser (email (body req)) (password (body req)) d))
             (snd (getUser (email (body req)) (password (body req)) d)) of
        (Inl e, d2) \<Rightarrow> (Inl e, d2)
      | (Inr t, d2) \<Rightarrow>
          (Inr (Response 200 (UserAndToken (fst (getUser (email (body req)) (password (body req)) d)) t)),
           d2))"
  by (simp add: authRouter_put_def case_prod_beta)

text \<open>
  Claim C4, as stated: when the lookup returns \<^verbatim>\<open>null\<close>, login fails with
  InvalidCredentials rather than crashing. The handler passes the \<^verbatim>\<open>null\<close> to
  \<^verbatim>\<open>setAuth\<close>: with a codec that signs anything the outcome is the TypeError of reading
  \<^verbatim>\<open>user.id\<close>, and with one that refuses the payload it is the codec's own exception.
\<close>

theorem login_invalid_credentials_counterexample:
  "fst (getUser (email (body wrongPassword)) (password (body wrongPassword)) db0) = None
   \<and> fst (app lenientCodec (authRouter_put lenientCodec) wrongPassword db0) = Inl TypeError
   \<and> fst (app codec (authRouter_put codec) wrongPassword db0)
       = Inl (JsonWebTokenError ''payload is not signable'')"
  by (simp add: wrongPassword_def lenientCodec_def scenario_defs route_defs database_defs)

text \<open>
  Claim C4, amended. The login handler has no branch for a failed lookup. When
  \<^verbatim>\<open>DB.getUser\<close> returns \<^verbatim>\<open>null\<close>, the request ends in the exception thrown inside
  \<^verbatim>\<open>setAuth\<close> (the one \<^verbatim>\<open>jwt.sign\<close> throws for the payload, or else a TypeError),
  and no table changes, so no Session Record is created. When the lookup finds a user and
  \<^verbatim>\<open>jwt.sign\<close> returns a token, the response is 200 with the user and the token, and the
  only change to the tables is the Session Record of that token for that user.
\<close>

theorem login_null_lookup:
  "(fst (getUser (email (body req)) (password (body req)) d) = None \<longrightarrow>
      fst (app J (authRouter_put J) req d) =
        (case sign J None of Inl m \<Rightarrow> Inl (JsonWebTokenError m) | Inr t \<Rightarrow> Inl TypeError)
      \<and> tables (snd (app J (authRouter_put J) req d)) = tables d)
   \<and> (fst (getUser (email (body req)) (password (body req)) d) = Some usr \<and> sign J (Some usr) = Inr t \<longrightarrow>
      fst (app J (authRouter_put J) req d) = Inr (Response 200 (UserAndToken (Some usr) t))
      \<and> tables (snd (app J (authRouter_put J) req d)) =
          (tables d)\<lparr>auth := (auth (tables d))(t \<mapsto> userId usr)\<rparr>)"
proof -
  obtain u d1 where s: "setAuthUser J req d = (u, d1)"
    by (cases "setAuthUser J req d")
  have d1: "tables d1 = tables d"
    using setAuthUser_tables [of J req d] s by simp
  have g: "fst (getUser (email (body req)) (password (body req)) d1) =
      fst (getUser (email (body req)) (password (body req)) d)"
    using d1 by (rule fst_getUser_tables)
  have a: "app J (authRouter_put J) req d = authRouter_put J u req d1"
    by (simp add: app_def s)
  show ?thesis
    unfolding a login_route g
    by (auto simp: setAuth_def loginUser_def db_simps tables_getUser d1 split: sum.splits)
qed

theorem login_null_lookup_witness:
  "fst (getUser (email (body wrongPassword)) (password (body wrongPassword)) db0) = None
   \<and> sign lenientCodec None = Inr ''ttt''
   \<and> fst (app lenientCodec (authRouter_put lenientCodec) wrongPassword db0) = Inl TypeError
   \<and> tables (snd (app lenientCodec (authRouter_put lenientCodec) wrongPassword db0)) = tables db0
   \<and> fst (getUser (email (body rightPassword)) (password (body rightPassword)) db0) = Some adminUser
   \<and> sign codec (Some adminUser) = Inr ''aaa''
   \<and> auth (tables db0) ''aaa'' = None
   \<and> fst (app codec (authRouter_put codec) rightPassword db0)
       = Inr (Response 200 (UserAndToken (Some adminUser) ''aaa''))
   \<and> auth (tables (snd (app codec (authRouter_put codec) rightPassword db0))) ''aaa'' = Some 1"
  using login_null_lookup [of wrongPassword db0 lenientCodec]
    login_null_lookup [of rightPassword db0 codec adminUser "''aaa''"]
  by (simp add: wrongPassword_def rightPassword_def lenientCodec_def scenario_defs route_defs database_defs)

end
